theory Spec2Isabelle
  imports Main
begin

section \<open>Data model (app/models.py)\<close>

text \<open>
  The four mapped classes of \<^verbatim>\<open>app/models.py\<close>, one record per table row. The primary key
  \<^verbatim>\<open>id\<close> of each class is never NULL. A column is an \<open>option\<close> where the program can
  leave NULL in it: \<^verbatim>\<open>full_name\<close> (never assigned), \<^verbatim>\<open>parent_id\<close> (defaults to
  \<^verbatim>\<open>None\<close>) and the \<^verbatim>\<open>movie_id\<close> of ratings and comments (blanked by the session when
  their movie is deleted, see \<open>session_delete_movie\<close>). The other columns are always
  written from the non-optional fields of a request body or from a primary key.
\<close>

record User =
  u_id :: int
  username :: string
  email :: string
  full_name :: "string option"
  hashed_password :: string
  disabled :: bool

record Movie =
  m_id :: int
  title :: string
  description :: string
  release_year :: int
  owner_id :: int

record Rating =
  r_id :: int
  r_movie_id :: "int option"
  rating :: int
  r_user_id :: int

record Comment =
  c_id :: int
  c_movie_id :: "int option"
  text_of :: string
  c_user_id :: int
  parent_id :: "int option"

text \<open>The database: the rows of each table, in insertion order.\<close>

record Session =
  users :: "User list"
  movies :: "Movie list"
  ratings :: "Rating list"
  comments :: "Comment list"

section \<open>Exceptions\<close>

text \<open>
  The exceptions the handlers raise or meet. \<open>HTTPException status_code detail\<close> is
  FastAPI's; \<open>IntegrityError\<close> is what a commit raises when a UNIQUE index of
  \<^verbatim>\<open>models.py\<close> is violated; \<open>OverflowError\<close> is what the SQLite driver raises when a
  statement is given a Python integer outside the signed 64-bit range. All three derive from
  Python's \<^verbatim>\<open>Exception\<close>.
\<close>

datatype exn = HTTPException int string | IntegrityError | OverflowError

text \<open>
  \<^verbatim>\<open>database.py\<close> binds the session to SQLite, whose INTEGER holds 64 bits. Every \<^verbatim>\<open>int\<close> of a
  request (a path parameter, a field of a body) is an unbounded Python integer that no
  handler checks; a statement that binds one outside the range raises and writes nothing.
\<close>

definition sqlite_integer :: "int \<Rightarrow> bool" where
  "sqlite_integer i \<longleftrightarrow> - (2 ^ 63) \<le> i \<and> i < 2 ^ 63"

text \<open>
  The status of the response: an \<^verbatim>\<open>HTTPException\<close> answers with its own status code, and
  \<^verbatim>\<open>generic_exception_handler\<close> of main.py answers 500 to any other exception.
\<close>

definition status_code :: "exn + 'a \<Rightarrow> int" where
  "status_code r =
     (case r of
        Inr v \<Rightarrow> 200
      | Inl (HTTPException code detail) \<Rightarrow> code
      | Inl IntegrityError \<Rightarrow> 500
      | Inl OverflowError \<Rightarrow> 500)"

text \<open>
  \<^verbatim>\<open>try: ... except Exception as e: raise HTTPException(status_code=500, ...)\<close>: the handler
  around the whole body of an endpoint. Every exception of the body reaches it, also the
  \<^verbatim>\<open>HTTPException\<close> the body raises itself.
\<close>

definition except_Exception :: "exn + 'a \<Rightarrow> exn + 'a" where
  "except_Exception r =
     (case r of
        Inl e \<Rightarrow> Inl (HTTPException 500 ''Internal Server Error'')
      | Inr v \<Rightarrow> Inr v)"

section \<open>Request bodies\<close>

record MovieCreate =
  mc_title :: string
  mc_description :: string
  mc_release_year :: int

section \<open>Movie endpoints of app/main.py\<close>

text \<open>\<^verbatim>\<open>db.query(Movie).filter(Movie.id == movie_id).first()\<close>\<close>

definition query_movie :: "Session \<Rightarrow> int \<Rightarrow> exn + Movie option" where
  "query_movie db movie_id =
     (if sqlite_integer movie_id then Inr (find (\<lambda>m. m_id m = movie_id) (movies db))
      else Inl OverflowError)"

text \<open>
  The three assignments of \<^verbatim>\<open>update_movie\<close> to the loaded object, and the UPDATE the
  commit emits for the row with that primary key. The UPDATE binds \<^verbatim>\<open>release_year\<close>; when it
  raises, the transaction is rolled back and the table is as before.
\<close>

definition assign_movie :: "MovieCreate \<Rightarrow> Movie \<Rightarrow> Movie" where
  "assign_movie movie db_movie =
     db_movie\<lparr>title := mc_title movie, description := mc_description movie,
       release_year := mc_release_year movie\<rparr>"

definition commit_movie_update :: "Session \<Rightarrow> int \<Rightarrow> MovieCreate \<Rightarrow> exn + Session" where
  "commit_movie_update db movie_id movie =
     (if sqlite_integer (mc_release_year movie)
      then Inr (db\<lparr>movies := map (\<lambda>m. if m_id m = movie_id then assign_movie movie m else m)
                                 (movies db)\<rparr>)
      else Inl OverflowError)"

definition update_movie :: "Session \<Rightarrow> User \<Rightarrow> int \<Rightarrow> MovieCreate \<Rightarrow> (exn + Movie) \<times> Session" where
  "update_movie db current_user movie_id movie =
     (case query_movie db movie_id of
        Inl e \<Rightarrow> (Inl e, db)
      | Inr None \<Rightarrow> (Inl (HTTPException 404 ''Movie not found''), db)
      | Inr (Some db_movie) \<Rightarrow>
          if owner_id db_movie \<noteq> u_id current_user
          then (Inl (HTTPException 403 ''Not authorized to update this movie''), db)
          else (case commit_movie_update db movie_id movie of
                  Inl e \<Rightarrow> (Inl e, db)
                | Inr db' \<Rightarrow> (Inr (assign_movie movie db_movie), db')))"

text \<open>
  \<^verbatim>\<open>db.delete(db_movie); db.commit()\<close>. \<^verbatim>\<open>Movie.ratings\<close> and \<^verbatim>\<open>Movie.comments\<close> are declared
  in \<^verbatim>\<open>models.py\<close> as \<^verbatim>\<open>relationship(..., back_populates="movie")\<close> with no \<^verbatim>\<open>cascade\<close>
  and no \<^verbatim>\<open>passive_deletes\<close>. For such a one-to-many relationship the session, when it
  flushes the delete of the parent, loads the children and de-associates them: it sets
  their foreign key column to NULL (\<^verbatim>\<open>UPDATE ratings SET movie_id=NULL WHERE id=?\<close>) and
  then emits \<^verbatim>\<open>DELETE FROM movies WHERE id=?\<close>. No child row is deleted. The \<^verbatim>\<open>owner\<close>
  side (many-to-one) touches no user row.
\<close>

definition session_delete_movie :: "Session \<Rightarrow> int \<Rightarrow> Session" where
  "session_delete_movie db movie_id =
     db\<lparr>movies := filter (\<lambda>m. m_id m \<noteq> movie_id) (movies db),
        ratings := map (\<lambda>r. if r_movie_id r = Some movie_id then r\<lparr>r_movie_id := None\<rparr> else r)
                     (ratings db),
        comments := map (\<lambda>c. if c_movie_id c = Some movie_id then c\<lparr>c_movie_id := None\<rparr> else c)
                     (comments db)\<rparr>"

definition delete_movie :: "Session \<Rightarrow> User \<Rightarrow> int \<Rightarrow> (exn + string) \<times> Session" where
  "delete_movie db current_user movie_id =
     (case query_movie db movie_id of
        Inl e \<Rightarrow> (Inl e, db)
      | Inr None \<Rightarrow> (Inl (HTTPException 404 ''Movie not found''), db)
      | Inr (Some db_movie) \<Rightarrow>
          if owner_id db_movie \<noteq> u_id current_user
          then (Inl (HTTPException 403 ''Not authorized to delete this movie''), db)
          else (Inr ''Movie deleted'', session_delete_movie db movie_id))"

section \<open>Ratings and comments of app/main.py\<close>

record RatingCreate =
  rc_movie_id :: int
  rc_rating :: int

text \<open>
  The primary key a new row gets: SQLite's INTEGER PRIMARY KEY takes one more than the
  largest key of the table, 1 in an empty table (every key is assigned this way, so all
  are positive).
\<close>

definition next_id :: "int list \<Rightarrow> int" where
  "next_id ids = fold max ids 0 + 1"

text \<open>
  \<^verbatim>\<open>rate_movie\<close> of main.py builds the row and commits it; it never queries the movies
  table. \<^verbatim>\<open>database.py\<close> opens SQLite without enabling foreign keys, so the insert does
  not depend on the movie either. The INSERT binds \<^verbatim>\<open>movie_id\<close> and \<^verbatim>\<open>rating\<close>.
\<close>

definition rate_movie :: "Session \<Rightarrow> User \<Rightarrow> RatingCreate \<Rightarrow> (exn + Rating) \<times> Session" where
  "rate_movie db current_user rc =
     (let db_rating = \<lparr>r_id = next_id (map r_id (ratings db)), r_movie_id = Some (rc_movie_id rc),
                        rating = rc_rating rc, r_user_id = u_id current_user\<rparr>
      in if sqlite_integer (rc_movie_id rc) \<and> sqlite_integer (rc_rating rc)
         then (Inr db_rating, db\<lparr>ratings := ratings db @ [db_rating]\<rparr>)
         else (Inl OverflowError, db))"


definition get_movie_comments :: "Session \<Rightarrow> int \<Rightarrow> exn + Comment list" where
  "get_movie_comments db movie_id =
     (if sqlite_integer movie_id
      then Inr (filter (\<lambda>c. c_movie_id c = Some movie_id) (comments db))
      else Inl OverflowError)"

section \<open>Endpoints of app/routers/movies.py\<close>

text \<open>
  The router's handlers have the bodies of main.py's inside
  \<^verbatim>\<open>try: ... except Exception\<close>. \<^verbatim>\<open>MovieUpdate\<close> has the fields of \<^verbatim>\<open>MovieCreate\<close>.
\<close>

record MovieUpdate =
  mu_title :: string
  mu_description :: string
  mu_release_year :: int

definition as_MovieCreate :: "MovieUpdate \<Rightarrow> MovieCreate" where
  "as_MovieCreate movie =
     \<lparr>mc_title = mu_title movie, mc_description = mu_description movie,
      mc_release_year = mu_release_year movie\<rparr>"

definition movies_update_movie ::
    "Session \<Rightarrow> User \<Rightarrow> int \<Rightarrow> MovieUpdate \<Rightarrow> (exn + Movie) \<times> Session" where
  "movies_update_movie db current_user movie_id movie =
     (case update_movie db current_user movie_id (as_MovieCreate movie) of
        (r, db') \<Rightarrow> (except_Exception r, db'))"

definition movies_rate_movie_body :: "Session \<Rightarrow> User \<Rightarrow> int \<Rightarrow> int \<Rightarrow> (exn + Rating) \<times> Session" where
  "movies_rate_movie_body db current_user movie_id rating_value =
     (case query_movie db movie_id of
        Inl e \<Rightarrow> (Inl e, db)
      | Inr None \<Rightarrow> (Inl (HTTPException 404 ''Movie not found''), db)
      | Inr (Some db_movie) \<Rightarrow>
          rate_movie db current_user \<lparr>rc_movie_id = movie_id, rc_rating = rating_value\<rparr>)"

definition movies_rate_movie :: "Session \<Rightarrow> User \<Rightarrow> int \<Rightarrow> int \<Rightarrow> (exn + Rating) \<times> Session" where
  "movies_rate_movie db current_user movie_id rating_value =
     (case movies_rate_movie_body db current_user movie_id rating_value of
        (r, db') \<Rightarrow> (except_Exception r, db'))"

section \<open>Identity and credentials (app/auth.py, get_current_user of app/main.py)\<close>

record UserCreate =
  uc_username :: string
  uc_email :: string
  uc_password :: string

record UserOut =
  out_username :: string
  out_email :: string

text \<open>
  \<^verbatim>\<open>pwd_context\<close>: the password hashing library, taken as a parameter. Only
  \<^verbatim>\<open>verify_password\<close> and \<^verbatim>\<open>get_password_hash\<close> call it.
\<close>

record CryptContext =
  hash_fn :: "string \<Rightarrow> string"
  verify_fn :: "string \<Rightarrow> string \<Rightarrow> bool"

definition verify_password :: "CryptContext \<Rightarrow> string \<Rightarrow> string \<Rightarrow> bool" where
  "verify_password pwd_context plain_password hashed = verify_fn pwd_context plain_password hashed"

definition get_password_hash :: "CryptContext \<Rightarrow> string \<Rightarrow> string" where
  "get_password_hash pwd_context password = hash_fn pwd_context password"

definition SECRET_KEY :: string where
  "SECRET_KEY = ''your_secret_key''"

definition ACCESS_TOKEN_EXPIRE_MINUTES :: int where
  "ACCESS_TOKEN_EXPIRE_MINUTES = 30"

text \<open>
  A \<^verbatim>\<open>datetime\<close> is a number of microseconds since the epoch, which is its resolution, and a
  \<^verbatim>\<open>timedelta\<close> a number of microseconds. \<^verbatim>\<open>timegm(d.utctimetuple())\<close> is the whole second a
  datetime lies in: the time tuple has no microseconds.
\<close>

definition timedelta_minutes :: "int \<Rightarrow> int" where
  "timedelta_minutes m = 60 * 1000000 * m"

definition timegm :: "int \<Rightarrow> int" where
  "timegm d = d div 1000000"

text \<open>
  The claims of a token. \<^verbatim>\<open>exp\<close> is a datetime in the dictionary that
  \<^verbatim>\<open>create_access_token\<close> builds, and a number of whole seconds in an encoded token.
\<close>

record claims =
  sub :: "string option"
  exp :: "int option"

text \<open>A token: the claims it carries and the key its signature was made with.\<close>

datatype token = Token claims string

datatype jwt_failure = InvalidSignature | ExpiredSignature

text \<open>
  \<^verbatim>\<open>jwt.encode\<close> and \<^verbatim>\<open>jwt.decode\<close> of the token library (python-jose), as far as these
  handlers use them. Encoding replaces a datetime \<^verbatim>\<open>exp\<close> by \<^verbatim>\<open>timegm(exp.utctimetuple())\<close>
  and signs the claims with the key. Decoding raises when the signature was not made with the
  key, and then when \<^verbatim>\<open>exp < timegm(datetime.utcnow().utctimetuple())\<close>; both errors are a
  \<^verbatim>\<open>JWTError\<close> for the caller. The signature itself is not computed here: a token records
  the key it was signed with.
\<close>

definition jwt_encode :: "claims \<Rightarrow> string \<Rightarrow> token" where
  "jwt_encode to_encode key = Token (to_encode\<lparr>exp := map_option timegm (exp to_encode)\<rparr>) key"

fun jwt_decode :: "token \<Rightarrow> string \<Rightarrow> int \<Rightarrow> jwt_failure + claims" where
  "jwt_decode (Token payload signed_with) key utcnow =
     (if signed_with \<noteq> key then Inl InvalidSignature
      else case exp payload of
             None \<Rightarrow> Inr payload
           | Some e \<Rightarrow> if e < timegm utcnow then Inl ExpiredSignature else Inr payload)"

text \<open>
  \<^verbatim>\<open>expires_delta or timedelta(minutes=15)\<close>: the default is taken when the argument is
  \<^verbatim>\<open>None\<close> and also when it is the zero timedelta, which is falsy.
\<close>

definition create_access_token :: "claims \<Rightarrow> int option \<Rightarrow> int \<Rightarrow> token" where
  "create_access_token data expires_delta utcnow =
     (let expire = utcnow + (case expires_delta of
                               None \<Rightarrow> timedelta_minutes 15
                             | Some d \<Rightarrow> if d = 0 then timedelta_minutes 15 else d)
      in jwt_encode (data\<lparr>exp := Some expire\<rparr>) SECRET_KEY)"

text \<open>
  The UNIQUE indexes on \<^verbatim>\<open>users.username\<close> and \<^verbatim>\<open>users.email\<close> (\<^verbatim>\<open>unique=True\<close> in
  \<^verbatim>\<open>models.py\<close>): a commit that writes row \<open>u\<close> raises \<open>IntegrityError\<close> when another row
  has its username or its email.
\<close>

definition unique_violation :: "User list \<Rightarrow> User \<Rightarrow> bool" where
  "unique_violation us u =
     (\<exists>v \<in> set us. u_id v \<noteq> u_id u \<and> (username v = username u \<or> email v = email u))"

definition register_user_body :: "CryptContext \<Rightarrow> Session \<Rightarrow> UserCreate \<Rightarrow> (exn + UserOut) \<times> Session" where
  "register_user_body pwd_context db user =
     (case find (\<lambda>u. username u = uc_username user) (users db) of
        Some db_user \<Rightarrow> (Inl (HTTPException 400 ''Username already registered''), db)
      | None \<Rightarrow>
         (case find (\<lambda>u. email u = uc_email user) (users db) of
            Some db_user \<Rightarrow> (Inl (HTTPException 400 ''Email already registered''), db)
          | None \<Rightarrow>
             (let hashed = get_password_hash pwd_context (uc_password user);
                  new_user = \<lparr>u_id = next_id (map u_id (users db)), username = uc_username user,
                              email = uc_email user, full_name = None, hashed_password = hashed,
                              disabled = False\<rparr>
              in if unique_violation (users db) new_user then (Inl IntegrityError, db)
                 else (Inr \<lparr>out_username = username new_user, out_email = email new_user\<rparr>,
                       db\<lparr>users := users db @ [new_user]\<rparr>))))"

definition register_user :: "CryptContext \<Rightarrow> Session \<Rightarrow> UserCreate \<Rightarrow> (exn + UserOut) \<times> Session" where
  "register_user pwd_context db user =
     (case register_user_body pwd_context db user of (r, db') \<Rightarrow> (except_Exception r, db'))"

record TokenOut =
  access_token :: token
  token_type :: string

definition login_body :: "CryptContext \<Rightarrow> Session \<Rightarrow> UserCreate \<Rightarrow> int \<Rightarrow> exn + TokenOut" where
  "login_body pwd_context db user utcnow =
     (case find (\<lambda>u. username u = uc_username user) (users db) of
        None \<Rightarrow> Inl (HTTPException 401 ''Invalid username or password'')
      | Some db_user \<Rightarrow>
          if \<not> verify_password pwd_context (uc_password user) (hashed_password db_user)
          then Inl (HTTPException 401 ''Invalid username or password'')
          else Inr \<lparr>access_token =
                      create_access_token \<lparr>sub = Some (username db_user), exp = None\<rparr>
                        (Some (timedelta_minutes ACCESS_TOKEN_EXPIRE_MINUTES)) utcnow,
                    token_type = ''bearer''\<rparr>)"

definition login :: "CryptContext \<Rightarrow> Session \<Rightarrow> UserCreate \<Rightarrow> int \<Rightarrow> exn + TokenOut" where
  "login pwd_context db user utcnow = except_Exception (login_body pwd_context db user utcnow)"

definition credentials_exception :: exn where
  "credentials_exception = HTTPException 401 ''Could not validate credentials''"

text \<open>
  \<^verbatim>\<open>get_current_user\<close> of main.py. Its \<^verbatim>\<open>except JWTError\<close> catches what the decoding raises;
  the \<^verbatim>\<open>credentials_exception\<close> raised inside the \<^verbatim>\<open>try\<close> is no \<^verbatim>\<open>JWTError\<close> and leaves as it is.
\<close>

definition get_current_user :: "Session \<Rightarrow> token \<Rightarrow> int \<Rightarrow> exn + User" where
  "get_current_user db tok utcnow =
     (case jwt_decode tok SECRET_KEY utcnow of
        Inl jwt_error \<Rightarrow> Inl credentials_exception
      | Inr payload \<Rightarrow>
         (case sub payload of
            None \<Rightarrow> Inl credentials_exception
          | Some name \<Rightarrow>
             (case find (\<lambda>u. username u = name) (users db) of
                None \<Rightarrow> Inl credentials_exception
              | Some user \<Rightarrow> Inr user)))"

section \<open>Self-update of app/routers/users.py\<close>





section \<open>Deleting a comment\<close>

text \<open>
  Modelled from the spec: no handler under src/ deletes a comment; only the declaration
  \<^verbatim>\<open>replies = relationship("Comment", back_populates="parent", cascade="all, delete-orphan")\<close>
  of \<^verbatim>\<open>models.py\<close> is there. The spec (3, 4.4): deleting a comment cascades to delete its
  replies, through the entire reply subtree. The delete of a loaded comment collects it, the
  rows whose \<^verbatim>\<open>parent_id\<close> is a collected id, and so on until no row is added, and removes
  them all.
\<close>

definition reply_step :: "Comment list \<Rightarrow> int list \<Rightarrow> int list" where
  "reply_step cs ids =
     map c_id (filter (\<lambda>c. c_id c \<notin> set ids \<and> (\<exists>p \<in> set ids. parent_id c = Some p)) cs)"

function cascade_ids :: "Comment list \<Rightarrow> int list \<Rightarrow> int list" where
  "cascade_ids cs ids =
     (if reply_step cs ids = [] then ids else cascade_ids cs (ids @ reply_step cs ids))"
  by pat_completeness auto

termination cascade_ids
proof (relation "measure (\<lambda>(cs, ids). length (filter (\<lambda>c. c_id c \<notin> set ids) cs))")
  show "wf (measure (\<lambda>(cs, ids). length (filter (\<lambda>c. c_id c \<notin> set ids) cs)))"
    by simp
next
  fix cs :: "Comment list" and ids :: "int list"
  assume "reply_step cs ids \<noteq> []"
  then obtain i where "i \<in> set (reply_step cs ids)"
    by (cases "reply_step cs ids") auto
  then obtain c where c: "c \<in> set cs" "c_id c \<notin> set ids" "c_id c \<in> set (reply_step cs ids)"
    by (auto simp: reply_step_def)
  have "c \<in> set (filter (\<lambda>c. c_id c \<notin> set ids) cs)"
    using c by simp
  then have "length (filter (\<lambda>c. c_id c \<notin> set (reply_step cs ids))
                      (filter (\<lambda>c. c_id c \<notin> set ids) cs))
           < length (filter (\<lambda>c. c_id c \<notin> set ids) cs)"
    by (rule length_filter_less) (simp add: c(3))
  then show "((cs, ids @ reply_step cs ids), (cs, ids))
        \<in> measure (\<lambda>(cs, ids). length (filter (\<lambda>c. c_id c \<notin> set ids) cs))"
    by (simp add: conj_commute)
qed

declare cascade_ids.simps [simp del]

text \<open>
  Modelled from the spec: the delete of a comment through the session, with the cascade along
  \<^verbatim>\<open>replies\<close>. The comment is a loaded row; its id selects what is removed.
\<close>

definition session_delete_comment :: "Session \<Rightarrow> Comment \<Rightarrow> Session" where
  "session_delete_comment db comment =
     db\<lparr>comments := filter (\<lambda>c. c_id c \<notin> set (cascade_ids (comments db) [c_id comment]))
                          (comments db)\<rparr>"

text \<open>The reply subtree of \<open>root\<close>: what is reached from it through \<^verbatim>\<open>parent_id\<close>.\<close>

inductive in_reply_subtree :: "Comment list \<Rightarrow> int \<Rightarrow> int \<Rightarrow> bool" for cs :: "Comment list" and root :: int where
  subtree_root: "in_reply_subtree cs root root"
| subtree_reply: "in_reply_subtree cs root p \<Longrightarrow> c \<in> set cs \<Longrightarrow> parent_id c = Some p
     \<Longrightarrow> in_reply_subtree cs root (c_id c)"

section \<open>Movies: lookup, update and delete\<close>

lemma query_movie_None:
  "query_movie db movie_id = Inr None
     \<longleftrightarrow> sqlite_integer movie_id \<and> movie_id \<notin> m_id ` set (movies db)"
  by (auto simp: query_movie_def find_None_iff)

lemma query_movie_Some:
  "query_movie db movie_id = Inr (Some m) \<Longrightarrow> m \<in> set (movies db) \<and> m_id m = movie_id"
  by (auto simp: query_movie_def find_Some_iff split: if_splits)

lemma query_movie_overflow:
  "\<not> sqlite_integer movie_id \<Longrightarrow> query_movie db movie_id = Inl OverflowError"
  by (simp add: query_movie_def)

lemma find_after_assign:
  "find (\<lambda>m. m_id m = i) ms = Some m \<Longrightarrow>
   find (\<lambda>m. m_id m = i) (map (\<lambda>m. if m_id m = i then assign_movie movie m else m) ms)
     = Some (assign_movie movie m)"
  by (induction ms) (auto simp: assign_movie_def split: if_splits)

lemma query_movie_after_update:
  assumes "query_movie db movie_id = Inr (Some m)"
      and "commit_movie_update db movie_id movie = Inr db'"
  shows "query_movie db' movie_id = Inr (Some (assign_movie movie m))"
proof -
  from assms(1) have r: "sqlite_integer movie_id"
    and f: "find (\<lambda>m. m_id m = movie_id) (movies db) = Some m"
    by (auto simp: query_movie_def split: if_splits)
  from assms(2) have "movies db'
      = map (\<lambda>m. if m_id m = movie_id then assign_movie movie m else m) (movies db)"
    by (auto simp: commit_movie_update_def split: if_splits)
  with r f show ?thesis
    by (simp add: query_movie_def find_after_assign)
qed

text \<open>
  Claim C4, as stated, promises 404 for every movie id that does not exist and an overwrite
  for every update by the owner. An id or a release year outside the signed 64-bit range
  never gets that far: the statement that binds it raises \<open>OverflowError\<close>, the response is
  500 and nothing is written. Here no movie has the id \<open>2^63\<close>, and the owner of movie 1
  sends the release year \<open>2^63\<close>.
\<close>

theorem movie_update_delete_counterexample:
  "update_movie \<lparr>users = [], movies = [], ratings = [], comments = []\<rparr>
      \<lparr>u_id = 1, username = ''alice'', email = ''a@x.com'', full_name = None,
        hashed_password = ''h'', disabled = False\<rparr> 9223372036854775808
      \<lparr>mc_title = ''New'', mc_description = ''Text'', mc_release_year = 2001\<rparr>
    = (Inl OverflowError, \<lparr>users = [], movies = [], ratings = [], comments = []\<rparr>)
 \<and> status_code (fst (update_movie \<lparr>users = [], movies = [], ratings = [], comments = []\<rparr>
      \<lparr>u_id = 1, username = ''alice'', email = ''a@x.com'', full_name = None,
        hashed_password = ''h'', disabled = False\<rparr> 9223372036854775808
      \<lparr>mc_title = ''New'', mc_description = ''Text'', mc_release_year = 2001\<rparr>)) = 500
 \<and> delete_movie \<lparr>users = [], movies = [], ratings = [], comments = []\<rparr>
      \<lparr>u_id = 1, username = ''alice'', email = ''a@x.com'', full_name = None,
        hashed_password = ''h'', disabled = False\<rparr> 9223372036854775808
    = (Inl OverflowError, \<lparr>users = [], movies = [], ratings = [], comments = []\<rparr>)
 \<and> update_movie
      \<lparr>users = [],
        movies = [\<lparr>m_id = 1, title = ''Old'', description = ''D'', release_year = 1999, owner_id = 1\<rparr>],
        ratings = [],
        comments = []\<rparr>
      \<lparr>u_id = 1, username = ''alice'', email = ''a@x.com'', full_name = None,
        hashed_password = ''h'', disabled = False\<rparr> 1
      \<lparr>mc_title = ''New'', mc_description = ''Text'', mc_release_year = 9223372036854775808\<rparr>
    = (Inl OverflowError,
      \<lparr>users = [],
        movies = [\<lparr>m_id = 1, title = ''Old'', description = ''D'', release_year = 1999, owner_id = 1\<rparr>],
        ratings = [],
        comments = []\<rparr>)"
  by (simp add: update_movie_def delete_movie_def query_movie_def commit_movie_update_def
        sqlite_integer_def status_code_def)

text \<open>
  Claim C4, amended. For a movie id in the signed 64-bit range, an update or a delete by an
  authenticated user fails with 404 when no movie has the id; fails with 403, the whole store
  unchanged, when the movie found is owned by another user; for the owner, an update whose
  release year is in the range writes the three fields of the request into the row and leaves
  the rest of it, and a delete removes the movie. For an id outside the range both fail with
  \<open>OverflowError\<close> and the store is unchanged.
\<close>

theorem movie_update_delete_owner_only:
  "(sqlite_integer movie_id \<and> movie_id \<notin> m_id ` set (movies db) \<longrightarrow>
      update_movie db current_user movie_id movie = (Inl (HTTPException 404 ''Movie not found''), db)
    \<and> delete_movie db current_user movie_id = (Inl (HTTPException 404 ''Movie not found''), db))
 \<and> (\<forall>m. query_movie db movie_id = Inr (Some m) \<and> owner_id m \<noteq> u_id current_user \<longrightarrow>
      update_movie db current_user movie_id movie
        = (Inl (HTTPException 403 ''Not authorized to update this movie''), db)
    \<and> delete_movie db current_user movie_id
        = (Inl (HTTPException 403 ''Not authorized to delete this movie''), db))
 \<and> (\<forall>m. query_movie db movie_id = Inr (Some m) \<and> owner_id m = u_id current_user
        \<and> sqlite_integer (mc_release_year movie) \<longrightarrow>
      (\<exists>db'. update_movie db current_user movie_id movie
                = (Inr (m\<lparr>title := mc_title movie, description := mc_description movie,
                           release_year := mc_release_year movie\<rparr>), db')
           \<and> query_movie db' movie_id
                = Inr (Some (m\<lparr>title := mc_title movie, description := mc_description movie,
                           release_year := mc_release_year movie\<rparr>))))
 \<and> (\<forall>m. query_movie db movie_id = Inr (Some m) \<and> owner_id m = u_id current_user \<longrightarrow>
      (\<exists>db'. delete_movie db current_user movie_id = (Inr ''Movie deleted'', db')
           \<and> movie_id \<notin> m_id ` set (movies db')))
 \<and> (\<not> sqlite_integer movie_id \<longrightarrow>
      update_movie db current_user movie_id movie = (Inl OverflowError, db)
    \<and> delete_movie db current_user movie_id = (Inl OverflowError, db))"
proof (intro conjI allI impI)
  assume "sqlite_integer movie_id \<and> movie_id \<notin> m_id ` set (movies db)"
  then have none: "query_movie db movie_id = Inr None" by (simp add: query_movie_None)
  show "update_movie db current_user movie_id movie = (Inl (HTTPException 404 ''Movie not found''), db)"
    by (simp add: update_movie_def none)
  show "delete_movie db current_user movie_id = (Inl (HTTPException 404 ''Movie not found''), db)"
    by (simp add: delete_movie_def none)
next
  fix m assume "query_movie db movie_id = Inr (Some m) \<and> owner_id m \<noteq> u_id current_user"
  then show "update_movie db current_user movie_id movie
        = (Inl (HTTPException 403 ''Not authorized to update this movie''), db)"
    and "delete_movie db current_user movie_id
        = (Inl (HTTPException 403 ''Not authorized to delete this movie''), db)"
    by (simp_all add: update_movie_def delete_movie_def)
next
  fix m assume a: "query_movie db movie_id = Inr (Some m) \<and> owner_id m = u_id current_user
        \<and> sqlite_integer (mc_release_year movie)"
  then obtain db' where c: "commit_movie_update db movie_id movie = Inr db'"
    by (simp add: commit_movie_update_def)
  with a have "update_movie db current_user movie_id movie = (Inr (assign_movie movie m), db')"
    by (simp add: update_movie_def)
  moreover from a have "query_movie db movie_id = Inr (Some m)" by simp
  then have "query_movie db' movie_id = Inr (Some (assign_movie movie m))"
    using c by (rule query_movie_after_update)
  ultimately show "\<exists>db'. update_movie db current_user movie_id movie
                = (Inr (m\<lparr>title := mc_title movie, description := mc_description movie,
                           release_year := mc_release_year movie\<rparr>), db')
           \<and> query_movie db' movie_id
                = Inr (Some (m\<lparr>title := mc_title movie, description := mc_description movie,
                           release_year := mc_release_year movie\<rparr>))"
    by (simp add: assign_movie_def)
next
  fix m assume a: "query_movie db movie_id = Inr (Some m) \<and> owner_id m = u_id current_user"
  then have "delete_movie db current_user movie_id
      = (Inr ''Movie deleted'', session_delete_movie db movie_id)"
    by (simp add: delete_movie_def)
  moreover have "movie_id \<notin> m_id ` set (movies (session_delete_movie db movie_id))"
    by (auto simp: session_delete_movie_def)
  ultimately show "\<exists>db'. delete_movie db current_user movie_id = (Inr ''Movie deleted'', db')
           \<and> movie_id \<notin> m_id ` set (movies db')"
    by simp
next
  assume "\<not> sqlite_integer movie_id"
  then have o: "query_movie db movie_id = Inl OverflowError" by (rule query_movie_overflow)
  show "update_movie db current_user movie_id movie = (Inl OverflowError, db)"
    by (simp add: update_movie_def o)
  show "delete_movie db current_user movie_id = (Inl OverflowError, db)"
    by (simp add: delete_movie_def o)
qed

theorem movie_update_delete_owner_only_witness:
  "update_movie \<lparr>users = [], movies = [], ratings = [], comments = []\<rparr>
      \<lparr>u_id = 1, username = ''alice'', email = ''a@x.com'', full_name = None,
        hashed_password = ''h'', disabled = False\<rparr> 7
      \<lparr>mc_title = ''New'', mc_description = ''Text'', mc_release_year = 2001\<rparr>
    = (Inl (HTTPException 404 ''Movie not found''), \<lparr>users = [], movies = [], ratings = [], comments = []\<rparr>)
 \<and> delete_movie
      \<lparr>users = [],
        movies = [\<lparr>m_id = 1, title = ''Old'', description = ''D'', release_year = 1999, owner_id = 1\<rparr>],
        ratings = [],
        comments = []\<rparr>
      \<lparr>u_id = 2, username = ''bob'', email = ''b@x.com'', full_name = None,
        hashed_password = ''h'', disabled = False\<rparr> 1
    = (Inl (HTTPException 403 ''Not authorized to delete this movie''),
       \<lparr>users = [],
        movies = [\<lparr>m_id = 1, title = ''Old'', description = ''D'', release_year = 1999, owner_id = 1\<rparr>],
        ratings = [],
        comments = []\<rparr>)
 \<and> (\<exists>db'. update_movie
      \<lparr>users = [],
        movies = [\<lparr>m_id = 1, title = ''Old'', description = ''D'', release_year = 1999, owner_id = 1\<rparr>],
        ratings = [],
        comments = []\<rparr>
      \<lparr>u_id = 1, username = ''alice'', email = ''a@x.com'', full_name = None,
        hashed_password = ''h'', disabled = False\<rparr> 1
      \<lparr>mc_title = ''New'', mc_description = ''Text'', mc_release_year = 2001\<rparr>
    = (Inr \<lparr>m_id = 1, title = ''New'', description = ''Text'', release_year = 2001, owner_id = 1\<rparr>, db')
      \<and> query_movie db' 1
        = Inr (Some \<lparr>m_id = 1, title = ''New'', description = ''Text'', release_year = 2001, owner_id = 1\<rparr>))
 \<and> (\<exists>db'. delete_movie
      \<lparr>users = [],
        movies = [\<lparr>m_id = 1, title = ''Old'', description = ''D'', release_year = 1999, owner_id = 1\<rparr>],
        ratings = [],
        comments = []\<rparr>
      \<lparr>u_id = 1, username = ''alice'', email = ''a@x.com'', full_name = None,
        hashed_password = ''h'', disabled = False\<rparr> 1
    = (Inr ''Movie deleted'', db') \<and> 1 \<notin> m_id ` set (movies db'))"
proof -
  have r7: "sqlite_integer 7" and r1: "sqlite_integer 1" and ry: "sqlite_integer 2001"
    by (simp_all add: sqlite_integer_def)
  have q: "query_movie
      \<lparr>users = [],
        movies = [\<lparr>m_id = 1, title = ''Old'', description = ''D'', release_year = 1999, owner_id = 1\<rparr>],
        ratings = [],
        comments = []\<rparr> 1
    = Inr (Some \<lparr>m_id = 1, title = ''Old'', description = ''D'', release_year = 1999, owner_id = 1\<rparr>)"
    by (simp add: query_movie_def r1)
  show ?thesis
    using
      movie_update_delete_owner_only [of 7 "\<lparr>users = [], movies = [], ratings = [], comments = []\<rparr>"
        "\<lparr>u_id = 1, username = ''alice'', email = ''a@x.com'', full_name = None,
        hashed_password = ''h'', disabled = False\<rparr>"
        "\<lparr>mc_title = ''New'', mc_description = ''Text'', mc_release_year = 2001\<rparr>", THEN conjunct1]
      movie_update_delete_owner_only [of 1 "\<lparr>users = [],
        movies = [\<lparr>m_id = 1, title = ''Old'', description = ''D'', release_year = 1999, owner_id = 1\<rparr>],
        ratings = [],
        comments = []\<rparr>"
        "\<lparr>u_id = 2, username = ''bob'', email = ''b@x.com'', full_name = None,
        hashed_password = ''h'', disabled = False\<rparr>"
        "\<lparr>mc_title = ''New'', mc_description = ''Text'', mc_release_year = 2001\<rparr>", THEN conjunct2, THEN conjunct1, rule_format,
        of "\<lparr>m_id = 1, title = ''Old'', description = ''D'', release_year = 1999, owner_id = 1\<rparr>"]
      movie_update_delete_owner_only [of 1 "\<lparr>users = [],
        movies = [\<lparr>m_id = 1, title = ''Old'', description = ''D'', release_year = 1999, owner_id = 1\<rparr>],
        ratings = [],
        comments = []\<rparr>"
        "\<lparr>u_id = 1, username = ''alice'', email = ''a@x.com'', full_name = None,
        hashed_password = ''h'', disabled = False\<rparr>"
        "\<lparr>mc_title = ''New'', mc_description = ''Text'', mc_release_year = 2001\<rparr>", THEN conjunct2, THEN conjunct2, THEN conjunct1,
        rule_format, of "\<lparr>m_id = 1, title = ''Old'', description = ''D'', release_year = 1999, owner_id = 1\<rparr>"]
      movie_update_delete_owner_only [of 1 "\<lparr>users = [],
        movies = [\<lparr>m_id = 1, title = ''Old'', description = ''D'', release_year = 1999, owner_id = 1\<rparr>],
        ratings = [],
        comments = []\<rparr>"
        "\<lparr>u_id = 1, username = ''alice'', email = ''a@x.com'', full_name = None,
        hashed_password = ''h'', disabled = False\<rparr>"
        "\<lparr>mc_title = ''New'', mc_description = ''Text'', mc_release_year = 2001\<rparr>", THEN conjunct2, THEN conjunct2, THEN conjunct2,
        THEN conjunct1, rule_format, of "\<lparr>m_id = 1, title = ''Old'', description = ''D'', release_year = 1999, owner_id = 1\<rparr>"]
      q r7 ry
    by simp
qed

lemma update_movie_success:
  "update_movie db current_user movie_id movie = (Inr m', db') \<Longrightarrow>
   commit_movie_update db movie_id movie = Inr db'"
  by (auto simp: update_movie_def split: option.splits sum.splits if_splits)

lemma movies_update_movie_success:
  "movies_update_movie db current_user movie_id movie = (Inr m', db') \<Longrightarrow>
   commit_movie_update db movie_id (as_MovieCreate movie) = Inr db'"
  by (auto simp: movies_update_movie_def update_movie_def except_Exception_def
           split: option.splits sum.splits if_splits)

lemma commit_movie_update_frame:
  "commit_movie_update db movie_id movie = Inr db' \<Longrightarrow>
   users db' = users db
 \<and> ratings db' = ratings db
 \<and> comments db' = comments db
 \<and> map m_id (movies db') = map m_id (movies db)
 \<and> map owner_id (movies db') = map owner_id (movies db)
 \<and> (\<forall>i < length (movies db). m_id (movies db ! i) \<noteq> movie_id \<longrightarrow>
       movies db' ! i = movies db ! i)"
  by (auto simp: commit_movie_update_def assign_movie_def split: if_splits)

text \<open>
  Claim C10. A successful movie update, through the handler of main.py or the one of
  routers/movies.py, leaves the users, the ratings and the comments as they were, keeps the id
  and the owner_id of every movie (the targeted one too), and leaves every movie with another
  id unchanged: only title, description and release_year of the targeted movie can differ.
\<close>

theorem update_movie_changes_three_fields_only:
  assumes "update_movie db current_user movie_id movie = (Inr m', db')
         \<or> movies_update_movie db current_user movie_id movie_update = (Inr m', db')"
  shows "users db' = users db \<and> ratings db' = ratings db \<and> comments db' = comments db
       \<and> map m_id (movies db') = map m_id (movies db)
       \<and> map owner_id (movies db') = map owner_id (movies db)
       \<and> (\<forall>i < length (movies db). m_id (movies db ! i) \<noteq> movie_id \<longrightarrow>
             movies db' ! i = movies db ! i)"
proof -
  from assms obtain mv where "commit_movie_update db movie_id mv = Inr db'"
    by (blast dest: update_movie_success movies_update_movie_success)
  then show ?thesis by (rule commit_movie_update_frame)
qed

theorem update_movie_changes_three_fields_only_witness:
  "fst (update_movie
      \<lparr>users = [],
        movies = [\<lparr>m_id = 1, title = ''Old'', description = ''D'', release_year = 1999, owner_id = 1\<rparr>,
                  \<lparr>m_id = 2, title = ''Two'', description = ''E'', release_year = 1998, owner_id = 3\<rparr>],
        ratings = [\<lparr>r_id = 1, r_movie_id = Some 1, rating = 4, r_user_id = 3\<rparr>],
        comments = []\<rparr>
      \<lparr>u_id = 1, username = ''alice'', email = ''a@x.com'', full_name = None,
        hashed_password = ''h'', disabled = False\<rparr> 1
      \<lparr>mc_title = ''New'', mc_description = ''Text'', mc_release_year = 2001\<rparr>)
     = Inr \<lparr>m_id = 1, title = ''New'', description = ''Text'', release_year = 2001, owner_id = 1\<rparr>
 \<and> users (snd (update_movie
      \<lparr>users = [],
        movies = [\<lparr>m_id = 1, title = ''Old'', description = ''D'', release_year = 1999, owner_id = 1\<rparr>,
                  \<lparr>m_id = 2, title = ''Two'', description = ''E'', release_year = 1998, owner_id = 3\<rparr>],
        ratings = [\<lparr>r_id = 1, r_movie_id = Some 1, rating = 4, r_user_id = 3\<rparr>],
        comments = []\<rparr>
      \<lparr>u_id = 1, username = ''alice'', email = ''a@x.com'', full_name = None,
        hashed_password = ''h'', disabled = False\<rparr> 1
      \<lparr>mc_title = ''New'', mc_description = ''Text'', mc_release_year = 2001\<rparr>)) = []
 \<and> ratings (snd (update_movie
      \<lparr>users = [],
        movies = [\<lparr>m_id = 1, title = ''Old'', description = ''D'', release_year = 1999, owner_id = 1\<rparr>,
                  \<lparr>m_id = 2, title = ''Two'', description = ''E'', release_year = 1998, owner_id = 3\<rparr>],
        ratings = [\<lparr>r_id = 1, r_movie_id = Some 1, rating = 4, r_user_id = 3\<rparr>],
        comments = []\<rparr>
      \<lparr>u_id = 1, username = ''alice'', email = ''a@x.com'', full_name = None,
        hashed_password = ''h'', disabled = False\<rparr> 1
      \<lparr>mc_title = ''New'', mc_description = ''Text'', mc_release_year = 2001\<rparr>))
     = [\<lparr>r_id = 1, r_movie_id = Some 1, rating = 4, r_user_id = 3\<rparr>]
 \<and> movies (snd (movies_update_movie
      \<lparr>users = [],
        movies = [\<lparr>m_id = 1, title = ''Old'', description = ''D'', release_year = 1999, owner_id = 1\<rparr>,
                  \<lparr>m_id = 2, title = ''Two'', description = ''E'', release_year = 1998, owner_id = 3\<rparr>],
        ratings = [\<lparr>r_id = 1, r_movie_id = Some 1, rating = 4, r_user_id = 3\<rparr>],
        comments = []\<rparr>
      \<lparr>u_id = 1, username = ''alice'', email = ''a@x.com'', full_name = None,
        hashed_password = ''h'', disabled = False\<rparr> 1
      \<lparr>mu_title = ''New'', mu_description = ''Text'', mu_release_year = 2001\<rparr>)) ! 1
     = \<lparr>m_id = 2, title = ''Two'', description = ''E'', release_year = 1998, owner_id = 3\<rparr>"
proof -
  have u: "update_movie
      \<lparr>users = [],
        movies = [\<lparr>m_id = 1, title = ''Old'', description = ''D'', release_year = 1999, owner_id = 1\<rparr>,
                  \<lparr>m_id = 2, title = ''Two'', description = ''E'', release_year = 1998, owner_id = 3\<rparr>],
        ratings = [\<lparr>r_id = 1, r_movie_id = Some 1, rating = 4, r_user_id = 3\<rparr>],
        comments = []\<rparr>
      \<lparr>u_id = 1, username = ''alice'', email = ''a@x.com'', full_name = None,
        hashed_password = ''h'', disabled = False\<rparr> 1
      \<lparr>mc_title = ''New'', mc_description = ''Text'', mc_release_year = 2001\<rparr>
    = (Inr \<lparr>m_id = 1, title = ''New'', description = ''Text'', release_year = 2001, owner_id = 1\<rparr>,
       snd (update_movie
      \<lparr>users = [],
        movies = [\<lparr>m_id = 1, title = ''Old'', description = ''D'', release_year = 1999, owner_id = 1\<rparr>,
                  \<lparr>m_id = 2, title = ''Two'', description = ''E'', release_year = 1998, owner_id = 3\<rparr>],
        ratings = [\<lparr>r_id = 1, r_movie_id = Some 1, rating = 4, r_user_id = 3\<rparr>],
        comments = []\<rparr>
      \<lparr>u_id = 1, username = ''alice'', email = ''a@x.com'', full_name = None,
        hashed_password = ''h'', disabled = False\<rparr> 1
      \<lparr>mc_title = ''New'', mc_description = ''Text'', mc_release_year = 2001\<rparr>))"
    by (simp add: update_movie_def query_movie_def commit_movie_update_def assign_movie_def
          sqlite_integer_def)
  have v: "movies_update_movie
      \<lparr>users = [],
        movies = [\<lparr>m_id = 1, title = ''Old'', description = ''D'', release_year = 1999, owner_id = 1\<rparr>,
                  \<lparr>m_id = 2, title = ''Two'', description = ''E'', release_year = 1998, owner_id = 3\<rparr>],
        ratings = [\<lparr>r_id = 1, r_movie_id = Some 1, rating = 4, r_user_id = 3\<rparr>],
        comments = []\<rparr>
      \<lparr>u_id = 1, username = ''alice'', email = ''a@x.com'', full_name = None,
        hashed_password = ''h'', disabled = False\<rparr> 1
      \<lparr>mu_title = ''New'', mu_description = ''Text'', mu_release_year = 2001\<rparr>
    = (Inr \<lparr>m_id = 1, title = ''New'', description = ''Text'', release_year = 2001, owner_id = 1\<rparr>,
       snd (movies_update_movie
      \<lparr>users = [],
        movies = [\<lparr>m_id = 1, title = ''Old'', description = ''D'', release_year = 1999, owner_id = 1\<rparr>,
                  \<lparr>m_id = 2, title = ''Two'', description = ''E'', release_year = 1998, owner_id = 3\<rparr>],
        ratings = [\<lparr>r_id = 1, r_movie_id = Some 1, rating = 4, r_user_id = 3\<rparr>],
        comments = []\<rparr>
      \<lparr>u_id = 1, username = ''alice'', email = ''a@x.com'', full_name = None,
        hashed_password = ''h'', disabled = False\<rparr> 1
      \<lparr>mu_title = ''New'', mu_description = ''Text'', mu_release_year = 2001\<rparr>))"
    by (simp add: movies_update_movie_def update_movie_def query_movie_def
          commit_movie_update_def assign_movie_def as_MovieCreate_def except_Exception_def
          sqlite_integer_def)
  note a = update_movie_changes_three_fields_only [OF disjI1, OF u]
  note b = update_movie_changes_three_fields_only [OF disjI2, OF v, THEN conjunct2,
      THEN conjunct2, THEN conjunct2, THEN conjunct2, THEN conjunct2, rule_format, of 1]
  have "fst (update_movie
      \<lparr>users = [],
        movies = [\<lparr>m_id = 1, title = ''Old'', description = ''D'', release_year = 1999, owner_id = 1\<rparr>,
                  \<lparr>m_id = 2, title = ''Two'', description = ''E'', release_year = 1998, owner_id = 3\<rparr>],
        ratings = [\<lparr>r_id = 1, r_movie_id = Some 1, rating = 4, r_user_id = 3\<rparr>],
        comments = []\<rparr>
      \<lparr>u_id = 1, username = ''alice'', email = ''a@x.com'', full_name = None,
        hashed_password = ''h'', disabled = False\<rparr> 1
      \<lparr>mc_title = ''New'', mc_description = ''Text'', mc_release_year = 2001\<rparr>)
     = Inr \<lparr>m_id = 1, title = ''New'', description = ''Text'', release_year = 2001, owner_id = 1\<rparr>"
    by (subst u) simp
  moreover have "users (snd (update_movie
      \<lparr>users = [],
        movies = [\<lparr>m_id = 1, title = ''Old'', description = ''D'', release_year = 1999, owner_id = 1\<rparr>,
                  \<lparr>m_id = 2, title = ''Two'', description = ''E'', release_year = 1998, owner_id = 3\<rparr>],
        ratings = [\<lparr>r_id = 1, r_movie_id = Some 1, rating = 4, r_user_id = 3\<rparr>],
        comments = []\<rparr>
      \<lparr>u_id = 1, username = ''alice'', email = ''a@x.com'', full_name = None,
        hashed_password = ''h'', disabled = False\<rparr> 1
      \<lparr>mc_title = ''New'', mc_description = ''Text'', mc_release_year = 2001\<rparr>)) = []"
    using a [THEN conjunct1] by simp
  moreover have "ratings (snd (update_movie
      \<lparr>users = [],
        movies = [\<lparr>m_id = 1, title = ''Old'', description = ''D'', release_year = 1999, owner_id = 1\<rparr>,
                  \<lparr>m_id = 2, title = ''Two'', description = ''E'', release_year = 1998, owner_id = 3\<rparr>],
        ratings = [\<lparr>r_id = 1, r_movie_id = Some 1, rating = 4, r_user_id = 3\<rparr>],
        comments = []\<rparr>
      \<lparr>u_id = 1, username = ''alice'', email = ''a@x.com'', full_name = None,
        hashed_password = ''h'', disabled = False\<rparr> 1
      \<lparr>mc_title = ''New'', mc_description = ''Text'', mc_release_year = 2001\<rparr>))
     = [\<lparr>r_id = 1, r_movie_id = Some 1, rating = 4, r_user_id = 3\<rparr>]"
    using a [THEN conjunct2, THEN conjunct1] by simp
  moreover have "movies (snd (movies_update_movie
      \<lparr>users = [],
        movies = [\<lparr>m_id = 1, title = ''Old'', description = ''D'', release_year = 1999, owner_id = 1\<rparr>,
                  \<lparr>m_id = 2, title = ''Two'', description = ''E'', release_year = 1998, owner_id = 3\<rparr>],
        ratings = [\<lparr>r_id = 1, r_movie_id = Some 1, rating = 4, r_user_id = 3\<rparr>],
        comments = []\<rparr>
      \<lparr>u_id = 1, username = ''alice'', email = ''a@x.com'', full_name = None,
        hashed_password = ''h'', disabled = False\<rparr> 1
      \<lparr>mu_title = ''New'', mu_description = ''Text'', mu_release_year = 2001\<rparr>)) ! 1
     = \<lparr>m_id = 2, title = ''Two'', description = ''E'', release_year = 1998, owner_id = 3\<rparr>"
    using b by simp
  ultimately show ?thesis by (intro conjI)
qed

section \<open>Deleting a movie that has ratings and comments\<close>

lemma delete_movie_success:
  "delete_movie db current_user movie_id = (Inr d, db') \<Longrightarrow> db' = session_delete_movie db movie_id"
  by (auto simp: delete_movie_def split: option.splits sum.splits if_splits)

text \<open>
  Claim C6, as stated, says that the ratings and comments of a deleted movie stay in the store
  still referring to the deleted movie id. The rows do stay, but the delete blanks their
  \<^verbatim>\<open>movie_id\<close>: after the owner deletes movie 1, its rating and its comment have
  \<^verbatim>\<open>movie_id\<close> NULL, so the ratings table is not the one before the delete.
\<close>

theorem delete_movie_rows_counterexample:
  "fst (delete_movie
      \<lparr>users = [],
        movies = [\<lparr>m_id = 1, title = ''Old'', description = ''D'', release_year = 1999, owner_id = 1\<rparr>],
        ratings = [\<lparr>r_id = 1, r_movie_id = Some 1, rating = 4, r_user_id = 3\<rparr>],
        comments = [\<lparr>c_id = 1, c_movie_id = Some 1, text_of = ''a'', c_user_id = 3, parent_id = None\<rparr>]\<rparr>
      \<lparr>u_id = 1, username = ''alice'', email = ''a@x.com'', full_name = None,
        hashed_password = ''h'', disabled = False\<rparr> 1) = Inr ''Movie deleted''
 \<and> ratings (snd (delete_movie
      \<lparr>users = [],
        movies = [\<lparr>m_id = 1, title = ''Old'', description = ''D'', release_year = 1999, owner_id = 1\<rparr>],
        ratings = [\<lparr>r_id = 1, r_movie_id = Some 1, rating = 4, r_user_id = 3\<rparr>],
        comments = [\<lparr>c_id = 1, c_movie_id = Some 1, text_of = ''a'', c_user_id = 3, parent_id = None\<rparr>]\<rparr>
      \<lparr>u_id = 1, username = ''alice'', email = ''a@x.com'', full_name = None,
        hashed_password = ''h'', disabled = False\<rparr> 1))
     = [\<lparr>r_id = 1, r_movie_id = None, rating = 4, r_user_id = 3\<rparr>]
 \<and> comments (snd (delete_movie
      \<lparr>users = [],
        movies = [\<lparr>m_id = 1, title = ''Old'', description = ''D'', release_year = 1999, owner_id = 1\<rparr>],
        ratings = [\<lparr>r_id = 1, r_movie_id = Some 1, rating = 4, r_user_id = 3\<rparr>],
        comments = [\<lparr>c_id = 1, c_movie_id = Some 1, text_of = ''a'', c_user_id = 3, parent_id = None\<rparr>]\<rparr>
      \<lparr>u_id = 1, username = ''alice'', email = ''a@x.com'', full_name = None,
        hashed_password = ''h'', disabled = False\<rparr> 1))
     = [\<lparr>c_id = 1, c_movie_id = None, text_of = ''a'', c_user_id = 3, parent_id = None\<rparr>]
 \<and> [\<lparr>r_id = 1, r_movie_id = None, rating = 4, r_user_id = 3\<rparr>]
     \<noteq> [\<lparr>r_id = 1, r_movie_id = Some 1, rating = 4, r_user_id = 3\<rparr>]"
  by (simp add: delete_movie_def query_movie_def session_delete_movie_def sqlite_integer_def)

text \<open>
  Claim C6, amended. A successful delete of a movie by its owner removes the movie row and no
  other row: users are unchanged, every rating and every comment is still there with its id
  and its other columns, and the \<^verbatim>\<open>movie_id\<close> of a rating or comment is set to NULL when it
  was the deleted movie's id and is unchanged otherwise.
\<close>

theorem delete_movie_keeps_dependent_rows:
  assumes "delete_movie db current_user movie_id = (Inr d, db')"
  shows "users db' = users db
       \<and> movies db' = filter (\<lambda>m. m_id m \<noteq> movie_id) (movies db)
       \<and> map r_id (ratings db') = map r_id (ratings db)
       \<and> map rating (ratings db') = map rating (ratings db)
       \<and> map r_user_id (ratings db') = map r_user_id (ratings db)
       \<and> map r_movie_id (ratings db')
           = map (\<lambda>r. if r_movie_id r = Some movie_id then None else r_movie_id r) (ratings db)
       \<and> map c_id (comments db') = map c_id (comments db)
       \<and> map text_of (comments db') = map text_of (comments db)
       \<and> map c_user_id (comments db') = map c_user_id (comments db)
       \<and> map parent_id (comments db') = map parent_id (comments db)
       \<and> map c_movie_id (comments db')
           = map (\<lambda>c. if c_movie_id c = Some movie_id then None else c_movie_id c) (comments db)"
proof -
  from assms have "db' = session_delete_movie db movie_id" by (rule delete_movie_success)
  then show ?thesis by (simp add: session_delete_movie_def)
qed

theorem delete_movie_keeps_dependent_rows_witness:
  "map r_id (ratings (snd (delete_movie
      \<lparr>users = [],
        movies = [\<lparr>m_id = 1, title = ''Old'', description = ''D'', release_year = 1999, owner_id = 1\<rparr>],
        ratings = [\<lparr>r_id = 1, r_movie_id = Some 1, rating = 4, r_user_id = 3\<rparr>,
                   \<lparr>r_id = 2, r_movie_id = Some 2, rating = 5, r_user_id = 3\<rparr>],
        comments = []\<rparr>
      \<lparr>u_id = 1, username = ''alice'', email = ''a@x.com'', full_name = None,
        hashed_password = ''h'', disabled = False\<rparr> 1))) = [1, 2]
 \<and> map r_movie_id (ratings (snd (delete_movie
      \<lparr>users = [],
        movies = [\<lparr>m_id = 1, title = ''Old'', description = ''D'', release_year = 1999, owner_id = 1\<rparr>],
        ratings = [\<lparr>r_id = 1, r_movie_id = Some 1, rating = 4, r_user_id = 3\<rparr>,
                   \<lparr>r_id = 2, r_movie_id = Some 2, rating = 5, r_user_id = 3\<rparr>],
        comments = []\<rparr>
      \<lparr>u_id = 1, username = ''alice'', email = ''a@x.com'', full_name = None,
        hashed_password = ''h'', disabled = False\<rparr> 1))) = [None, Some 2]"
proof -
  have ok: "delete_movie
      \<lparr>users = [],
        movies = [\<lparr>m_id = 1, title = ''Old'', description = ''D'', release_year = 1999, owner_id = 1\<rparr>],
        ratings = [\<lparr>r_id = 1, r_movie_id = Some 1, rating = 4, r_user_id = 3\<rparr>,
                   \<lparr>r_id = 2, r_movie_id = Some 2, rating = 5, r_user_id = 3\<rparr>],
        comments = []\<rparr>
      \<lparr>u_id = 1, username = ''alice'', email = ''a@x.com'', full_name = None,
        hashed_password = ''h'', disabled = False\<rparr> 1
    = (Inr ''Movie deleted'', snd (delete_movie
      \<lparr>users = [],
        movies = [\<lparr>m_id = 1, title = ''Old'', description = ''D'', release_year = 1999, owner_id = 1\<rparr>],
        ratings = [\<lparr>r_id = 1, r_movie_id = Some 1, rating = 4, r_user_id = 3\<rparr>,
                   \<lparr>r_id = 2, r_movie_id = Some 2, rating = 5, r_user_id = 3\<rparr>],
        comments = []\<rparr>
      \<lparr>u_id = 1, username = ''alice'', email = ''a@x.com'', full_name = None,
        hashed_password = ''h'', disabled = False\<rparr> 1))"
    by (simp add: delete_movie_def query_movie_def sqlite_integer_def)
  show ?thesis
    using delete_movie_keeps_dependent_rows [OF ok] by simp
qed

section \<open>Listings\<close>




section \<open>Registration and login\<close>

text \<open>
  Claim C1. The two uniqueness checks of \<^verbatim>\<open>register_user\<close> raise 400, but they raise it
  inside the handler's \<^verbatim>\<open>try\<close>, and its \<^verbatim>\<open>except Exception\<close> answers 500 instead. With
  alice registered, a request with her username and a request with her email both get
  500 \<open>Internal Server Error\<close>; the store is unchanged.
\<close>

theorem register_duplicate_answers_500:
  "register_user_body \<lparr>hash_fn = (\<lambda>p. ''h:'' @ p), verify_fn = (\<lambda>p h. h = ''h:'' @ p)\<rparr>
      \<lparr>users = [\<lparr>u_id = 1, username = ''alice'', email = ''a@x.com'', full_name = None,
                  hashed_password = ''h:pw1'', disabled = False\<rparr>],
       movies = [], ratings = [], comments = []\<rparr>
      \<lparr>uc_username = ''alice'', uc_email = ''new@x.com'', uc_password = ''pw''\<rparr>
    = (Inl (HTTPException 400 ''Username already registered''),
      \<lparr>users = [\<lparr>u_id = 1, username = ''alice'', email = ''a@x.com'', full_name = None,
                  hashed_password = ''h:pw1'', disabled = False\<rparr>],
       movies = [], ratings = [], comments = []\<rparr>)
 \<and> register_user \<lparr>hash_fn = (\<lambda>p. ''h:'' @ p), verify_fn = (\<lambda>p h. h = ''h:'' @ p)\<rparr>
      \<lparr>users = [\<lparr>u_id = 1, username = ''alice'', email = ''a@x.com'', full_name = None,
                  hashed_password = ''h:pw1'', disabled = False\<rparr>],
       movies = [], ratings = [], comments = []\<rparr>
      \<lparr>uc_username = ''alice'', uc_email = ''new@x.com'', uc_password = ''pw''\<rparr>
    = (Inl (HTTPException 500 ''Internal Server Error''),
      \<lparr>users = [\<lparr>u_id = 1, username = ''alice'', email = ''a@x.com'', full_name = None,
                  hashed_password = ''h:pw1'', disabled = False\<rparr>],
       movies = [], ratings = [], comments = []\<rparr>)
 \<and> register_user \<lparr>hash_fn = (\<lambda>p. ''h:'' @ p), verify_fn = (\<lambda>p h. h = ''h:'' @ p)\<rparr>
      \<lparr>users = [\<lparr>u_id = 1, username = ''alice'', email = ''a@x.com'', full_name = None,
                  hashed_password = ''h:pw1'', disabled = False\<rparr>],
       movies = [], ratings = [], comments = []\<rparr>
      \<lparr>uc_username = ''carol'', uc_email = ''a@x.com'', uc_password = ''pw''\<rparr>
    = (Inl (HTTPException 500 ''Internal Server Error''),
      \<lparr>users = [\<lparr>u_id = 1, username = ''alice'', email = ''a@x.com'', full_name = None,
                  hashed_password = ''h:pw1'', disabled = False\<rparr>],
       movies = [], ratings = [], comments = []\<rparr>)
 \<and> status_code (fst (register_user \<lparr>hash_fn = (\<lambda>p. ''h:'' @ p), verify_fn = (\<lambda>p h. h = ''h:'' @ p)\<rparr>
      \<lparr>users = [\<lparr>u_id = 1, username = ''alice'', email = ''a@x.com'', full_name = None,
                  hashed_password = ''h:pw1'', disabled = False\<rparr>],
       movies = [], ratings = [], comments = []\<rparr>
      \<lparr>uc_username = ''alice'', uc_email = ''new@x.com'', uc_password = ''pw''\<rparr>)) = 500"
  by (simp add: register_user_def register_user_body_def except_Exception_def status_code_def)

text \<open>
  Claim C2. \<^verbatim>\<open>login\<close> raises 401 for an unknown username and for a wrong password, inside
  its \<^verbatim>\<open>try\<close>; the \<^verbatim>\<open>except Exception\<close> of the handler answers 500 instead. No token is
  issued.
\<close>

theorem login_failure_answers_500:
  "login_body \<lparr>hash_fn = (\<lambda>p. ''h:'' @ p), verify_fn = (\<lambda>p h. h = ''h:'' @ p)\<rparr>
      \<lparr>users = [\<lparr>u_id = 1, username = ''alice'', email = ''a@x.com'', full_name = None,
                  hashed_password = ''h:pw1'', disabled = False\<rparr>],
       movies = [], ratings = [], comments = []\<rparr>
      \<lparr>uc_username = ''alice'', uc_email = ''a@x.com'', uc_password = ''wrong''\<rparr> 1000000000
    = Inl (HTTPException 401 ''Invalid username or password'')
 \<and> login \<lparr>hash_fn = (\<lambda>p. ''h:'' @ p), verify_fn = (\<lambda>p h. h = ''h:'' @ p)\<rparr>
      \<lparr>users = [\<lparr>u_id = 1, username = ''alice'', email = ''a@x.com'', full_name = None,
                  hashed_password = ''h:pw1'', disabled = False\<rparr>],
       movies = [], ratings = [], comments = []\<rparr>
      \<lparr>uc_username = ''alice'', uc_email = ''a@x.com'', uc_password = ''wrong''\<rparr> 1000000000
    = Inl (HTTPException 500 ''Internal Server Error'')
 \<and> login \<lparr>hash_fn = (\<lambda>p. ''h:'' @ p), verify_fn = (\<lambda>p h. h = ''h:'' @ p)\<rparr>
      \<lparr>users = [\<lparr>u_id = 1, username = ''alice'', email = ''a@x.com'', full_name = None,
                  hashed_password = ''h:pw1'', disabled = False\<rparr>],
       movies = [], ratings = [], comments = []\<rparr>
      \<lparr>uc_username = ''nobody'', uc_email = ''n@x.com'', uc_password = ''pw1''\<rparr> 1000000000
    = Inl (HTTPException 500 ''Internal Server Error'')
 \<and> status_code (login \<lparr>hash_fn = (\<lambda>p. ''h:'' @ p), verify_fn = (\<lambda>p h. h = ''h:'' @ p)\<rparr>
      \<lparr>users = [\<lparr>u_id = 1, username = ''alice'', email = ''a@x.com'', full_name = None,
                  hashed_password = ''h:pw1'', disabled = False\<rparr>],
       movies = [], ratings = [], comments = []\<rparr>
      \<lparr>uc_username = ''alice'', uc_email = ''a@x.com'', uc_password = ''wrong''\<rparr> 1000000000) = 500"
  by (simp add: login_def login_body_def except_Exception_def status_code_def verify_password_def)

section \<open>Tokens\<close>

lemma login_success:
  assumes "login pwd_context db user t = Inr resp"
  shows "\<exists>u. find (\<lambda>u. username u = uc_username user) (users db) = Some u
           \<and> access_token resp
               = Token \<lparr>sub = Some (uc_username user),
                        exp = Some (timegm (t + timedelta_minutes 30))\<rparr> SECRET_KEY"
proof -
  from assms obtain u where f: "find (\<lambda>u. username u = uc_username user) (users db) = Some u"
    and r: "resp = \<lparr>access_token =
                      create_access_token \<lparr>sub = Some (username u), exp = None\<rparr>
                        (Some (timedelta_minutes ACCESS_TOKEN_EXPIRE_MINUTES)) t,
                    token_type = ''bearer''\<rparr>"
    by (auto simp: login_def login_body_def except_Exception_def
             split: option.splits if_splits)
  from f have "username u = uc_username user" by (auto simp: find_Some_iff)
  with f r show ?thesis
    by (simp add: create_access_token_def jwt_encode_def timedelta_minutes_def
          ACCESS_TOKEN_EXPIRE_MINUTES_def)
qed

lemma invalid_signature_rejected:
  "signed_with \<noteq> SECRET_KEY \<Longrightarrow>
   get_current_user db (Token payload signed_with) now = Inl credentials_exception"
  by (simp add: get_current_user_def)

lemma timegm_mono: "a \<le> b \<Longrightarrow> timegm a \<le> timegm b"
  by (simp add: timegm_def zdiv_mono1)

lemma timegm_next_second: "timegm (a + 1000000) = timegm a + 1"
  by (simp add: timegm_def)

text \<open>
  Claim C3, as stated, has the token rejected at every time after \<open>T\<close> plus 30 minutes. The
  expiry is stored in whole seconds and compared with the clock in whole seconds: a token
  issued at 0.5 s expires at 1800.5 s, carries \<^verbatim>\<open>exp\<close> 1800 and is still accepted at 1800.7 s.
\<close>

theorem token_accepted_after_thirty_minutes_counterexample:
  "login \<lparr>hash_fn = (\<lambda>p. ''h:'' @ p), verify_fn = (\<lambda>p h. h = ''h:'' @ p)\<rparr>
      \<lparr>users = [\<lparr>u_id = 1, username = ''alice'', email = ''a@x.com'', full_name = None,
                  hashed_password = ''h:pw1'', disabled = False\<rparr>],
       movies = [], ratings = [], comments = []\<rparr>
      \<lparr>uc_username = ''alice'', uc_email = ''a@x.com'', uc_password = ''pw1''\<rparr> 500000
    = Inr \<lparr>access_token = (Token \<lparr>sub = Some ''alice'', exp = Some 1800\<rparr> ''your_secret_key''),
           token_type = ''bearer''\<rparr>
 \<and> 500000 + timedelta_minutes 30 < 1800700000
 \<and> get_current_user
      \<lparr>users = [\<lparr>u_id = 1, username = ''alice'', email = ''a@x.com'', full_name = None,
                  hashed_password = ''h:pw1'', disabled = False\<rparr>],
       movies = [], ratings = [], comments = []\<rparr>
      (Token \<lparr>sub = Some ''alice'', exp = Some 1800\<rparr> ''your_secret_key'') 1800700000
    = Inr \<lparr>u_id = 1, username = ''alice'', email = ''a@x.com'', full_name = None,
                  hashed_password = ''h:pw1'', disabled = False\<rparr>"
  by (simp add: login_def login_body_def except_Exception_def verify_password_def
        create_access_token_def jwt_encode_def timedelta_minutes_def timegm_def
        ACCESS_TOKEN_EXPIRE_MINUTES_def SECRET_KEY_def get_current_user_def)

text \<open>
  Claim C3, amended. A token that \<^verbatim>\<open>login\<close> issued at time \<open>t\<close> resolves to the user at every
  time strictly before \<open>t\<close> plus 30 minutes, and is rejected with 401 at every time that is at
  least one second after \<open>t\<close> plus 30 minutes; a token whose signature was not made with the
  server's key is rejected with 401 at every time, in every store. Times are in microseconds.
\<close>

theorem token_accepted_for_thirty_minutes:
  assumes "login pwd_context db user t = Inr resp"
  shows "(\<forall>now. now < t + timedelta_minutes 30 \<longrightarrow>
            (\<exists>u. get_current_user db (access_token resp) now = Inr u
                \<and> username u = uc_username user))
       \<and> (\<forall>now. t + timedelta_minutes 30 + 1000000 \<le> now \<longrightarrow>
            get_current_user db (access_token resp) now
              = Inl (HTTPException 401 ''Could not validate credentials''))
       \<and> (\<forall>payload signed_with now db'. signed_with \<noteq> SECRET_KEY \<longrightarrow>
            get_current_user db' (Token payload signed_with) now
              = Inl (HTTPException 401 ''Could not validate credentials''))"
proof (intro conjI allI impI)
  from login_success [OF assms] obtain u
    where f: "find (\<lambda>u. username u = uc_username user) (users db) = Some u"
      and tok: "access_token resp
               = Token \<lparr>sub = Some (uc_username user),
                        exp = Some (timegm (t + timedelta_minutes 30))\<rparr> SECRET_KEY"
    by blast
  from f have name: "username u = uc_username user" by (auto simp: find_Some_iff)
  {
    fix now assume "now < t + timedelta_minutes 30"
    then have "timegm now \<le> timegm (t + timedelta_minutes 30)"
      by (intro timegm_mono) simp
    then have "get_current_user db (access_token resp) now = Inr u"
      by (simp add: get_current_user_def tok f)
    with name show "\<exists>u. get_current_user db (access_token resp) now = Inr u
                \<and> username u = uc_username user"
      by blast
  }
  {
    fix now assume "t + timedelta_minutes 30 + 1000000 \<le> now"
    then have "timegm (t + timedelta_minutes 30 + 1000000) \<le> timegm now"
      by (rule timegm_mono)
    then have "timegm (t + timedelta_minutes 30) < timegm now"
      by (simp add: timegm_next_second)
    then show "get_current_user db (access_token resp) now
              = Inl (HTTPException 401 ''Could not validate credentials'')"
      by (simp add: get_current_user_def tok credentials_exception_def)
  }
  {
    fix payload signed_with now db'
    assume "signed_with \<noteq> SECRET_KEY"
    then show "get_current_user db' (Token payload signed_with) now
              = Inl (HTTPException 401 ''Could not validate credentials'')"
      by (simp add: invalid_signature_rejected credentials_exception_def)
  }
qed

theorem token_accepted_for_thirty_minutes_witness:
  "login \<lparr>hash_fn = (\<lambda>p. ''h:'' @ p), verify_fn = (\<lambda>p h. h = ''h:'' @ p)\<rparr>
      \<lparr>users = [\<lparr>u_id = 1, username = ''alice'', email = ''a@x.com'', full_name = None,
                  hashed_password = ''h:pw1'', disabled = False\<rparr>],
       movies = [], ratings = [], comments = []\<rparr>
      \<lparr>uc_username = ''alice'', uc_email = ''a@x.com'', uc_password = ''pw1''\<rparr> 1000000000
    = Inr \<lparr>access_token = (Token \<lparr>sub = Some ''alice'', exp = Some 2800\<rparr> ''your_secret_key''),
           token_type = ''bearer''\<rparr>
 \<and> (\<exists>u. get_current_user
      \<lparr>users = [\<lparr>u_id = 1, username = ''alice'', email = ''a@x.com'', full_name = None,
                  hashed_password = ''h:pw1'', disabled = False\<rparr>],
       movies = [], ratings = [], comments = []\<rparr>
      (Token \<lparr>sub = Some ''alice'', exp = Some 2800\<rparr> ''your_secret_key'') 2799999999 = Inr u
     \<and> username u = ''alice'')
 \<and> get_current_user
      \<lparr>users = [\<lparr>u_id = 1, username = ''alice'', email = ''a@x.com'', full_name = None,
                  hashed_password = ''h:pw1'', disabled = False\<rparr>],
       movies = [], ratings = [], comments = []\<rparr>
      (Token \<lparr>sub = Some ''alice'', exp = Some 2800\<rparr> ''your_secret_key'') 2801000000
    = Inl (HTTPException 401 ''Could not validate credentials'')
 \<and> get_current_user
      \<lparr>users = [\<lparr>u_id = 1, username = ''alice'', email = ''a@x.com'', full_name = None,
                  hashed_password = ''h:pw1'', disabled = False\<rparr>],
       movies = [], ratings = [], comments = []\<rparr>
      (Token \<lparr>sub = Some ''alice'', exp = Some 2800\<rparr> ''forged_key'') 1000000001
    = Inl (HTTPException 401 ''Could not validate credentials'')"
proof -
  have ok: "login \<lparr>hash_fn = (\<lambda>p. ''h:'' @ p), verify_fn = (\<lambda>p h. h = ''h:'' @ p)\<rparr>
      \<lparr>users = [\<lparr>u_id = 1, username = ''alice'', email = ''a@x.com'', full_name = None,
                  hashed_password = ''h:pw1'', disabled = False\<rparr>],
       movies = [], ratings = [], comments = []\<rparr>
      \<lparr>uc_username = ''alice'', uc_email = ''a@x.com'', uc_password = ''pw1''\<rparr> 1000000000
    = Inr \<lparr>access_token = (Token \<lparr>sub = Some ''alice'', exp = Some 2800\<rparr> ''your_secret_key''),
           token_type = ''bearer''\<rparr>"
    by (simp add: login_def login_body_def except_Exception_def verify_password_def
          create_access_token_def jwt_encode_def timedelta_minutes_def timegm_def
          ACCESS_TOKEN_EXPIRE_MINUTES_def SECRET_KEY_def)
  note t = token_accepted_for_thirty_minutes [OF ok]
  have forged: "''forged_key'' \<noteq> SECRET_KEY" by (simp add: SECRET_KEY_def)
  have a: "\<exists>u. get_current_user
      \<lparr>users = [\<lparr>u_id = 1, username = ''alice'', email = ''a@x.com'', full_name = None,
                  hashed_password = ''h:pw1'', disabled = False\<rparr>],
       movies = [], ratings = [], comments = []\<rparr>
      (Token \<lparr>sub = Some ''alice'', exp = Some 2800\<rparr> ''your_secret_key'') 2799999999 = Inr u
     \<and> username u = ''alice''"
    using t [THEN conjunct1, rule_format, of 2799999999] by (simp add: timedelta_minutes_def)
  have b: "get_current_user
      \<lparr>users = [\<lparr>u_id = 1, username = ''alice'', email = ''a@x.com'', full_name = None,
                  hashed_password = ''h:pw1'', disabled = False\<rparr>],
       movies = [], ratings = [], comments = []\<rparr>
      (Token \<lparr>sub = Some ''alice'', exp = Some 2800\<rparr> ''your_secret_key'') 2801000000
    = Inl (HTTPException 401 ''Could not validate credentials'')"
    using t [THEN conjunct2, THEN conjunct1, rule_format, of 2801000000]
    by (simp add: timedelta_minutes_def)
  have c: "get_current_user
      \<lparr>users = [\<lparr>u_id = 1, username = ''alice'', email = ''a@x.com'', full_name = None,
                  hashed_password = ''h:pw1'', disabled = False\<rparr>],
       movies = [], ratings = [], comments = []\<rparr>
      (Token \<lparr>sub = Some ''alice'', exp = Some 2800\<rparr> ''forged_key'') 1000000001
    = Inl (HTTPException 401 ''Could not validate credentials'')"
    by (rule t [THEN conjunct2, THEN conjunct2, rule_format, OF forged])
  from ok a b c show ?thesis by (intro conjI)
qed

section \<open>Rating a movie\<close>

text \<open>
  Claim C7. \<^verbatim>\<open>rate_movie\<close> of main.py does not look the movie up: with no movie in the
  store, a rating for movie 99 is inserted and returned. The handler of routers/movies.py
  does look it up, and its 404 is answered as 500 by its own \<^verbatim>\<open>except Exception\<close>.
\<close>

theorem rate_movie_accepts_missing_movie:
  "query_movie \<lparr>users = [], movies = [], ratings = [], comments = []\<rparr> 99 = Inr None
 \<and> rate_movie \<lparr>users = [], movies = [], ratings = [], comments = []\<rparr>
      \<lparr>u_id = 2, username = ''bob'', email = ''b@x.com'', full_name = None,
                  hashed_password = ''h:pw2'', disabled = False\<rparr>
      \<lparr>rc_movie_id = 99, rc_rating = 5\<rparr>
    = (Inr \<lparr>r_id = 1, r_movie_id = Some 99, rating = 5, r_user_id = 2\<rparr>,
       \<lparr>users = [], movies = [],
        ratings = [\<lparr>r_id = 1, r_movie_id = Some 99, rating = 5, r_user_id = 2\<rparr>],
        comments = []\<rparr>)
 \<and> movies_rate_movie \<lparr>users = [], movies = [], ratings = [], comments = []\<rparr>
      \<lparr>u_id = 2, username = ''bob'', email = ''b@x.com'', full_name = None,
                  hashed_password = ''h:pw2'', disabled = False\<rparr> 99 5
    = (Inl (HTTPException 500 ''Internal Server Error''), \<lparr>users = [], movies = [], ratings = [], comments = []\<rparr>)"
  by (simp add: rate_movie_def query_movie_def movies_rate_movie_def movies_rate_movie_body_def
        except_Exception_def next_id_def sqlite_integer_def Let_def)

section \<open>Changing one's own profile\<close>


section \<open>The reply subtree of a deleted comment\<close>

lemma cascade_ids_extends: "set ids \<subseteq> set (cascade_ids cs ids)"
proof (induction cs ids rule: cascade_ids.induct)
  case (1 cs ids)
  show ?case
  proof (cases "reply_step cs ids = []")
    case True
    then show ?thesis by (subst cascade_ids.simps) simp
  next
    case False
    with 1 have "set (ids @ reply_step cs ids) \<subseteq> set (cascade_ids cs (ids @ reply_step cs ids))"
      by simp
    with False show ?thesis by (subst cascade_ids.simps) auto
  qed
qed

lemma cascade_ids_closed:
  "c \<in> set cs \<Longrightarrow> parent_id c = Some p \<Longrightarrow> p \<in> set (cascade_ids cs ids)
     \<Longrightarrow> c_id c \<in> set (cascade_ids cs ids)"
proof (induction cs ids rule: cascade_ids.induct)
  case (1 cs ids)
  show ?case
  proof (cases "reply_step cs ids = []")
    case True
    then have eq: "cascade_ids cs ids = ids" by (subst cascade_ids.simps) simp
    with "1.prems" have p: "p \<in> set ids" by simp
    have "c_id c \<in> set ids"
    proof (rule ccontr)
      assume "c_id c \<notin> set ids"
      with "1.prems"(1,2) p have "c_id c \<in> set (reply_step cs ids)"
        by (auto simp: reply_step_def)
      with True show False by simp
    qed
    with eq show ?thesis by simp
  next
    case False
    then have eq: "cascade_ids cs ids = cascade_ids cs (ids @ reply_step cs ids)"
      by (subst cascade_ids.simps) simp
    with 1 False show ?thesis by simp
  qed
qed

lemma subtree_in_cascade:
  "in_reply_subtree cs root i \<Longrightarrow> i \<in> set (cascade_ids cs [root])"
proof (induction rule: in_reply_subtree.induct)
  case subtree_root
  show ?case using cascade_ids_extends [of "[root]" cs] by simp
next
  case (subtree_reply p c)
  then show ?case by (blast intro: cascade_ids_closed)
qed

lemma cascade_in_subtree:
  "\<forall>i \<in> set ids. in_reply_subtree cs root i \<Longrightarrow> i \<in> set (cascade_ids cs ids)
     \<Longrightarrow> in_reply_subtree cs root i"
proof (induction cs ids rule: cascade_ids.induct)
  case (1 cs ids)
  show ?case
  proof (cases "reply_step cs ids = []")
    case True
    then have eq: "cascade_ids cs ids = ids" by (subst cascade_ids.simps) simp
    with "1.prems" show ?thesis by simp
  next
    case False
    then have eq: "cascade_ids cs ids = cascade_ids cs (ids @ reply_step cs ids)"
      by (subst cascade_ids.simps) simp
    have "\<forall>i \<in> set (ids @ reply_step cs ids). in_reply_subtree cs root i"
      using "1.prems"(1) by (auto simp: reply_step_def intro: subtree_reply)
    with 1 False eq show ?thesis by simp
  qed
qed

lemma cascade_ids_exact: "i \<in> set (cascade_ids cs [root]) \<longleftrightarrow> in_reply_subtree cs root i"
proof
  assume "i \<in> set (cascade_ids cs [root])"
  moreover have "\<forall>j \<in> set [root]. in_reply_subtree cs root j"
    by (simp add: subtree_root)
  ultimately show "in_reply_subtree cs root i"
    by (rule cascade_in_subtree [rotated])
next
  assume "in_reply_subtree cs root i"
  then show "i \<in> set (cascade_ids cs [root])" by (rule subtree_in_cascade)
qed

lemma session_delete_comment_keeps_others:
  "c \<in> set (comments db) \<Longrightarrow> \<not> in_reply_subtree (comments db) (c_id comment) (c_id c)
     \<Longrightarrow> c \<in> set (comments (session_delete_comment db comment))"
  by (simp add: session_delete_comment_def cascade_ids_exact)

text \<open>
  Claim C5. After the delete of a comment, no row of its reply subtree is left: not the
  comment, not a reply to it, not a reply to a reply, at any depth; and no comments listing,
  for any movie, shows one of them.
\<close>

theorem delete_comment_removes_reply_subtree:
  assumes "in_reply_subtree (comments db) (c_id comment) i"
  shows "i \<notin> c_id ` set (comments (session_delete_comment db comment))
       \<and> (\<forall>movie_id listed.
             get_movie_comments (session_delete_comment db comment) movie_id = Inr listed
             \<longrightarrow> i \<notin> c_id ` set listed)"
proof -
  from assms have "i \<in> set (cascade_ids (comments db) [c_id comment])"
    by (rule subtree_in_cascade)
  then have gone: "i \<notin> c_id ` set (comments (session_delete_comment db comment))"
    by (auto simp: session_delete_comment_def)
  have "i \<notin> c_id ` set listed"
    if "get_movie_comments (session_delete_comment db comment) movie_id = Inr listed"
    for movie_id listed
  proof -
    from that have "set listed \<subseteq> set (comments (session_delete_comment db comment))"
      by (auto simp: get_movie_comments_def split: if_splits)
    with gone show ?thesis by blast
  qed
  with gone show ?thesis by blast
qed

theorem delete_comment_removes_reply_subtree_witness:
  "in_reply_subtree
     [\<lparr>c_id = 1, c_movie_id = Some 1, text_of = ''a'', c_user_id = 2, parent_id = None\<rparr>,
      \<lparr>c_id = 2, c_movie_id = Some 1, text_of = ''b'', c_user_id = 1, parent_id = Some 1\<rparr>,
      \<lparr>c_id = 3, c_movie_id = Some 1, text_of = ''c'', c_user_id = 1, parent_id = Some 2\<rparr>,
      \<lparr>c_id = 4, c_movie_id = Some 1, text_of = ''d'', c_user_id = 1, parent_id = None\<rparr>] 1 3
 \<and> 3 \<notin> c_id ` set (comments (session_delete_comment
     \<lparr>users = [], movies = [], ratings = [],
      comments =
     [\<lparr>c_id = 1, c_movie_id = Some 1, text_of = ''a'', c_user_id = 2, parent_id = None\<rparr>,
      \<lparr>c_id = 2, c_movie_id = Some 1, text_of = ''b'', c_user_id = 1, parent_id = Some 1\<rparr>,
      \<lparr>c_id = 3, c_movie_id = Some 1, text_of = ''c'', c_user_id = 1, parent_id = Some 2\<rparr>,
      \<lparr>c_id = 4, c_movie_id = Some 1, text_of = ''d'', c_user_id = 1, parent_id = None\<rparr>]\<rparr>
     \<lparr>c_id = 1, c_movie_id = Some 1, text_of = ''a'', c_user_id = 2, parent_id = None\<rparr>))
 \<and> comments (session_delete_comment
     \<lparr>users = [], movies = [], ratings = [],
      comments =
     [\<lparr>c_id = 1, c_movie_id = Some 1, text_of = ''a'', c_user_id = 2, parent_id = None\<rparr>,
      \<lparr>c_id = 2, c_movie_id = Some 1, text_of = ''b'', c_user_id = 1, parent_id = Some 1\<rparr>,
      \<lparr>c_id = 3, c_movie_id = Some 1, text_of = ''c'', c_user_id = 1, parent_id = Some 2\<rparr>,
      \<lparr>c_id = 4, c_movie_id = Some 1, text_of = ''d'', c_user_id = 1, parent_id = None\<rparr>]\<rparr>
     \<lparr>c_id = 1, c_movie_id = Some 1, text_of = ''a'', c_user_id = 2, parent_id = None\<rparr>)
   = [\<lparr>c_id = 4, c_movie_id = Some 1, text_of = ''d'', c_user_id = 1, parent_id = None\<rparr>]"
proof -
  let ?c1 = "\<lparr>c_id = 1, c_movie_id = Some 1, text_of = ''a'', c_user_id = 2, parent_id = None\<rparr>"
  let ?c2 = "\<lparr>c_id = 2, c_movie_id = Some 1, text_of = ''b'', c_user_id = 1, parent_id = Some 1\<rparr>"
  let ?c3 = "\<lparr>c_id = 3, c_movie_id = Some 1, text_of = ''c'', c_user_id = 1, parent_id = Some 2\<rparr>"
  let ?c4 = "\<lparr>c_id = 4, c_movie_id = Some 1, text_of = ''d'', c_user_id = 1, parent_id = None\<rparr>"
  let ?cs = "[?c1, ?c2, ?c3, ?c4]"
  have "in_reply_subtree ?cs 1 1" by (rule subtree_root)
  then have "in_reply_subtree ?cs 1 (c_id ?c2)" by (rule subtree_reply) simp_all
  then have "in_reply_subtree ?cs 1 2" by simp
  then have "in_reply_subtree ?cs 1 (c_id ?c3)" by (rule subtree_reply) simp_all
  then have sub: "in_reply_subtree ?cs 1 3" by simp
  then have "in_reply_subtree
      (comments \<lparr>users = [], movies = [], ratings = [], comments = ?cs\<rparr>) (c_id ?c1) 3"
    by simp
  note gone = delete_comment_removes_reply_subtree [OF this, THEN conjunct1]
  have left: "comments (session_delete_comment
     \<lparr>users = [], movies = [], ratings = [],
      comments =
     [\<lparr>c_id = 1, c_movie_id = Some 1, text_of = ''a'', c_user_id = 2, parent_id = None\<rparr>,
      \<lparr>c_id = 2, c_movie_id = Some 1, text_of = ''b'', c_user_id = 1, parent_id = Some 1\<rparr>,
      \<lparr>c_id = 3, c_movie_id = Some 1, text_of = ''c'', c_user_id = 1, parent_id = Some 2\<rparr>,
      \<lparr>c_id = 4, c_movie_id = Some 1, text_of = ''d'', c_user_id = 1, parent_id = None\<rparr>]\<rparr>
     \<lparr>c_id = 1, c_movie_id = Some 1, text_of = ''a'', c_user_id = 2, parent_id = None\<rparr>)
   = [\<lparr>c_id = 4, c_movie_id = Some 1, text_of = ''d'', c_user_id = 1, parent_id = None\<rparr>]"
    by (simp add: session_delete_comment_def cascade_ids.simps reply_step_def)
  from sub gone left show ?thesis by (intro conjI)
qed

end
